theory Spec2Isabelle
  imports Complex_Main "HOL-Library.AList"
begin

section \<open>Values, errors and data frames\<close>

text \<open>
  The pipeline moves JSON documents through pandas data frames into SQL tables. A Python
  value is modelled by \<open>pyval\<close>: \<open>PNull\<close> stands for every missing-value marker of
  pandas (\<open>None\<close>, \<open>NaN\<close>, \<open>NaT\<close>), \<open>PNum\<close> for a number (Python's \<open>int\<close> and
  \<open>float\<close> are the real number they denote; the rounding that a column's dtype brings
  is the parameter \<open>up\<close> of the column access below), \<open>PStr\<close> for a text whose
  characters are code points below 256, \<open>PTime\<close> for a parsed timestamp. A dictionary is
  an association list read with \<open>map_of\<close>.
\<close>

datatype pyval =
    PNull
  | PBool bool
  | PNum real
  | PStr string
  | PTime int
  | PList "pyval list"
  | PDict "(string \<times> pyval) list"

type_synonym pydict = "(string \<times> pyval) list"

datatype error =
    KeyError string
  | AttributeError string
  | TypeError string
  | ValueError string
  | FileNotFoundError string
  | StorageError string
  | QueryError string

text \<open>\<open>str(e)\<close>: a \<open>KeyError\<close> prints its key in quotes, the others print their message.\<close>

fun str_of_error :: "error \<Rightarrow> string" where
  "str_of_error (KeyError k) = [CHR 0x27] @ k @ [CHR 0x27]"
| "str_of_error (AttributeError m) = m"
| "str_of_error (TypeError m) = m"
| "str_of_error (ValueError m) = m"
| "str_of_error (FileNotFoundError m) = m"
| "str_of_error (StorageError m) = m"
| "str_of_error (QueryError m) = m"

definition bindE :: "'e + 'a \<Rightarrow> ('a \<Rightarrow> 'e + 'b) \<Rightarrow> 'e + 'b" where
  "bindE m f = (case m of Inl e \<Rightarrow> Inl e | Inr v \<Rightarrow> f v)"

text \<open>
  A data frame: the length of its index and its columns in order. \<open>set_col\<close> is
  \<open>df[k] = series\<close>; on a frame without columns the series brings its index along.
  \<open>set_scalar\<close> is \<open>df[k] = scalar\<close>, which fills the whole index.
\<close>

record frame =
  index_len :: nat
  columns :: "(string \<times> pyval list) list"

definition empty_frame :: frame where
  "empty_frame = \<lparr>index_len = 0, columns = []\<rparr>"

definition set_col :: "string \<Rightarrow> pyval list \<Rightarrow> frame \<Rightarrow> frame" where
  "set_col k vs df =
     \<lparr>index_len = (if columns df = [] then length vs else index_len df),
      columns = AList.update k vs (columns df)\<rparr>"

definition set_scalar :: "string \<Rightarrow> pyval \<Rightarrow> frame \<Rightarrow> frame" where
  "set_scalar k v df = set_col k (replicate (index_len df) v) df"

definition frame_cell :: "frame \<Rightarrow> string \<Rightarrow> nat \<Rightarrow> pyval option" where
  "frame_cell df k i =
     (case map_of (columns df) k of
        None \<Rightarrow> None
      | Some vs \<Rightarrow> (if i < length vs then Some (vs ! i) else None))"

definition row_at :: "frame \<Rightarrow> nat \<Rightarrow> (string \<times> pyval option) list" where
  "row_at df i = map (\<lambda>(k, vs). (k, frame_cell df k i)) (columns df)"

subsection \<open>\<open>pd.DataFrame(records)\<close> and column access\<close>

text \<open>
  \<open>pd.DataFrame(list_of_dicts)\<close> has one column per key that occurs in some record; a
  record without the key holds \<open>NaN\<close> there. \<open>df[k]\<close> raises \<open>KeyError\<close> for a key that
  no record has; in particular every \<open>df[k]\<close> raises on the empty list.

  pandas picks one dtype for the whole column, and a number is held in that dtype: an
  integer in a column with a gap or a fraction becomes a float64 and is rounded to one.
  The number a cell holds in its column is given by \<open>up\<close>, a parameter of the model
  (the column, the number as the record has it); every other value stays as it is.
\<close>

definition has_column :: "pydict list \<Rightarrow> string \<Rightarrow> bool" where
  "has_column recs k = list_ex (\<lambda>r. \<not> Option.is_none (map_of r k)) recs"

definition raw_column :: "pydict list \<Rightarrow> string \<Rightarrow> pyval option list" where
  "raw_column recs k = map (\<lambda>r. map_of r k) recs"

fun cell_of :: "pyval option \<Rightarrow> pyval" where
  "cell_of None = PNull"
| "cell_of (Some v) = v"

fun upcast_cell :: "(pyval list \<Rightarrow> real \<Rightarrow> real) \<Rightarrow> pyval list \<Rightarrow> pyval \<Rightarrow> pyval" where
  "upcast_cell up col (PNum x) = PNum (up col x)"
| "upcast_cell up col v = v"

definition column_cells :: "pydict list \<Rightarrow> string \<Rightarrow> pyval list" where
  "column_cells recs k = map cell_of (raw_column recs k)"

definition passed_column :: "(pyval list \<Rightarrow> real \<Rightarrow> real) \<Rightarrow> pydict list \<Rightarrow> string \<Rightarrow> pyval list" where
  "passed_column up recs k = map (upcast_cell up (column_cells recs k)) (column_cells recs k)"

definition getitem ::
  "(pyval list \<Rightarrow> real \<Rightarrow> real) \<Rightarrow> pydict list \<Rightarrow> string \<Rightarrow> error + pyval list" where
  "getitem up recs k =
     (if has_column recs k then Inr (passed_column up recs k) else Inl (KeyError k))"

text \<open>Columns of integers without a gap keep their numbers: no conversion.\<close>

definition no_upcast :: "pyval list \<Rightarrow> real \<Rightarrow> real" where
  "no_upcast col x = x"

text \<open>
  The \<open>.str\<close> accessor exists on columns of dtype object whose inferred type is not
  numeric or boolean. A column built from records is of dtype object when it holds a text,
  list or dictionary, or booleans mixed with numbers, or nothing but \<open>None\<close>; numbers
  or timestamps (with or without gaps) give a numeric column, booleans with gaps a boolean object column,
  and gaps alone a float column: on those \<open>.str\<close> raises \<open>AttributeError\<close>.
  \<open>None\<close> in the raw column is a record without the key, \<open>Some PNull\<close> a JSON null.
\<close>

fun is_object_val :: "pyval option \<Rightarrow> bool" where
  "is_object_val (Some (PStr s)) = True"
| "is_object_val (Some (PList xs)) = True"
| "is_object_val (Some (PDict d)) = True"
| "is_object_val v = False"

fun is_bool_val :: "pyval option \<Rightarrow> bool" where
  "is_bool_val (Some (PBool b)) = True"
| "is_bool_val v = False"

fun is_num_val :: "pyval option \<Rightarrow> bool" where
  "is_num_val (Some (PNum x)) = True"
| "is_num_val (Some (PTime t)) = True"
| "is_num_val v = False"

definition str_accessor_ok :: "pyval option list \<Rightarrow> bool" where
  "str_accessor_ok col =
     (if list_ex is_object_val col then True
      else if list_ex is_bool_val col then list_ex is_num_val col
      else if list_ex is_num_val col then False
      else list_all (\<lambda>v. \<not> Option.is_none v) col)"

definition getitem_str ::
  "(pyval list \<Rightarrow> real \<Rightarrow> real) \<Rightarrow> pydict list \<Rightarrow> string \<Rightarrow> error + pyval list" where
  "getitem_str up recs k =
     bindE (getitem up recs k) (\<lambda>col.
       if str_accessor_ok (raw_column recs k) then Inr col
       else Inl (AttributeError ''Can only use .str accessor with string values!''))"

text \<open>
  The \<open>.str\<close> accessor on the result of a \<open>.str\<close> method that returns texts
  (\<open>lower\<close>, \<open>strip\<close>). The result holds a text where the column held one and
  \<open>NaN\<close> elsewhere. It is of dtype object when it holds a text, and also when the column
  held nothing but missing values (pandas then leaves the array as it is); otherwise it
  is a float column of \<open>NaN\<close>, on which \<open>.str\<close> raises \<open>AttributeError\<close>.
  The argument is the column the method was applied to.
\<close>

fun is_str :: "pyval \<Rightarrow> bool" where
  "is_str (PStr s) = True"
| "is_str v = False"

fun isna :: "pyval \<Rightarrow> bool" where
  "isna PNull = True"
| "isna v = False"

definition str_result_ok :: "pyval list \<Rightarrow> bool" where
  "str_result_ok col = (if list_ex is_str col then True else list_all isna col)"

definition str_again :: "pyval list \<Rightarrow> error + unit" where
  "str_again col =
     (if str_result_ok col then Inr ()
      else Inl (AttributeError ''Can only use .str accessor with string values!''))"

subsection \<open>Text operations\<close>

text \<open>Python's \<open>str.isspace\<close> on the code points below 256.\<close>

definition is_space :: "char \<Rightarrow> bool" where
  "is_space c =
     (let n = (of_char c :: nat)
      in (9 \<le> n \<and> n \<le> 13) \<or> (28 \<le> n \<and> n \<le> 32) \<or> n = 133 \<or> n = 160)"

definition strip :: "string \<Rightarrow> string" where
  "strip s = rev (dropWhile is_space (rev (dropWhile is_space s)))"

text \<open>\<open>s.split()\<close>: the maximal runs of non-space characters.\<close>

fun split_ws_aux :: "string \<Rightarrow> string \<Rightarrow> string list" where
  "split_ws_aux cur [] = (if cur = [] then [] else [cur])"
| "split_ws_aux cur (c # cs) =
     (if is_space c
      then (if cur = [] then split_ws_aux [] cs else cur # split_ws_aux [] cs)
      else split_ws_aux (cur @ [c]) cs)"

definition split_ws :: "string \<Rightarrow> string list" where
  "split_ws s = split_ws_aux [] s"

text \<open>\<open>s.split(d)\<close> for a separator of one character.\<close>

fun split_on_aux :: "char \<Rightarrow> string \<Rightarrow> string \<Rightarrow> string list" where
  "split_on_aux d cur [] = [cur]"
| "split_on_aux d cur (c # cs) =
     (if c = d then cur # split_on_aux d [] cs else split_on_aux d (cur @ [c]) cs)"

definition split_on :: "char \<Rightarrow> string \<Rightarrow> string list" where
  "split_on d s = split_on_aux d [] s"

text \<open>\<open>str.lower\<close> on the code points below 256: A to Z and the accented capitals.\<close>

definition is_upper :: "char \<Rightarrow> bool" where
  "is_upper c =
     (let n = (of_char c :: nat)
      in (65 \<le> n \<and> n \<le> 90) \<or> (192 \<le> n \<and> n \<le> 222 \<and> n \<noteq> 215))"

definition lower_char :: "char \<Rightarrow> char" where
  "lower_char c = (if is_upper c then char_of ((of_char c :: nat) + 32) else c)"

definition lower :: "string \<Rightarrow> string" where
  "lower s = map lower_char s"

text \<open>
  The element-wise methods of the \<open>.str\<close> accessor. An element the Python method does not
  apply to (a number, a missing value, ...) gives \<open>NaN\<close>.
\<close>

fun str_lower_cell :: "pyval \<Rightarrow> pyval" where
  "str_lower_cell (PStr s) = PStr (lower s)"
| "str_lower_cell v = PNull"

fun str_strip_cell :: "pyval \<Rightarrow> pyval" where
  "str_strip_cell (PStr s) = PStr (strip s)"
| "str_strip_cell v = PNull"

fun str_len_cell :: "pyval \<Rightarrow> pyval" where
  "str_len_cell (PStr s) = PNum (of_nat (length s))"
| "str_len_cell (PList xs) = PNum (of_nat (length xs))"
| "str_len_cell (PDict d) = PNum (of_nat (length d))"
| "str_len_cell v = PNull"

fun str_split_ws_cell :: "pyval \<Rightarrow> pyval" where
  "str_split_ws_cell (PStr s) = PList (map PStr (split_ws s))"
| "str_split_ws_cell v = PNull"

fun str_split_cell :: "char \<Rightarrow> pyval \<Rightarrow> pyval" where
  "str_split_cell d (PStr s) = PList (map PStr (split_on d s))"
| "str_split_cell d v = PNull"

fun str_get_cell :: "nat \<Rightarrow> pyval \<Rightarrow> pyval" where
  "str_get_cell i (PStr s) = (if i < length s then PStr [s ! i] else PNull)"
| "str_get_cell i (PList xs) = (if i < length xs then xs ! i else PNull)"
| "str_get_cell i v = PNull"

section \<open>Transformer\<close>

subsection \<open>Posts\<close>

text \<open>
  \<open>pd.cut(x, bins=[0, 100, 200, inf], labels=["short", "medium", "long"])\<close> with the
  defaults \<open>right=True\<close>, \<open>include_lowest=False\<close>: the bins are \<open>(0, 100]\<close>,
  \<open>(100, 200]\<close> and \<open>(200, inf]\<close>; a value in no bin, or a missing value, has no
  category. \<open>.astype(str)\<close> then prints a missing category as \<open>nan\<close>.

  \<open>pd.cut\<close> raises \<open>TypeError\<close> on a column of dtype object. The column of body
  lengths is one when it holds no number at all: it then comes from a body column of
  nothing but missing values, which the \<open>.str\<close> methods leave of dtype object.
\<close>

definition cut_bins :: "real \<Rightarrow> string option" where
  "cut_bins x =
     (if 0 < x \<and> x \<le> 100 then Some ''short''
      else if 100 < x \<and> x \<le> 200 then Some ''medium''
      else if 200 < x then Some ''long''
      else None)"

fun cut_cell :: "pyval \<Rightarrow> string option" where
  "cut_cell (PNum x) = cut_bins x"
| "cut_cell v = None"

fun is_num :: "pyval \<Rightarrow> bool" where
  "is_num (PNum x) = True"
| "is_num v = False"

definition cut_series :: "pyval list \<Rightarrow> error + string option list" where
  "cut_series xs =
     (if list_ex is_num xs then Inr (map cut_cell xs)
      else Inl (TypeError ''not supported between instances of float and NoneType''))"

fun category_astype_str :: "string option \<Rightarrow> pyval" where
  "category_astype_str None = PStr ''nan''"
| "category_astype_str (Some l) = PStr l"

text \<open>
  \<open>transform_posts_data\<close>; \<open>now\<close> is \<open>datetime.now().isoformat()\<close>. The two
  \<open>.str.strip()\<close> come first; the \<open>.str\<close> accesses on the trimmed columns follow
  (one for \<open>title_length\<close>, one each for \<open>body_length\<close> and \<open>word_count\<close>).
\<close>

definition transform_posts_data ::
  "(pyval list \<Rightarrow> real \<Rightarrow> real) \<Rightarrow> string \<Rightarrow> pydict list \<Rightarrow> error + frame" where
  "transform_posts_data up now posts_data =
     bindE (getitem up posts_data ''id'') (\<lambda>c_id.
     bindE (getitem up posts_data ''userId'') (\<lambda>c_user.
     bindE (getitem_str up posts_data ''title'') (\<lambda>c_title.
     bindE (getitem_str up posts_data ''body'') (\<lambda>c_body.
     bindE (str_again c_title) (\<lambda>u1.
     bindE (str_again c_body) (\<lambda>u2.
     bindE (cut_series (map (str_len_cell \<circ> str_strip_cell) c_body)) (\<lambda>category.
       let title = map str_strip_cell c_title;
           body = map str_strip_cell c_body;
           body_length = map str_len_cell body;
           df1 = set_col ''post_id'' c_id empty_frame;
           df2 = set_col ''user_id'' c_user df1;
           df3 = set_col ''title'' title df2;
           df4 = set_col ''body'' body df3;
           df5 = set_col ''title_length'' (map str_len_cell title) df4;
           df6 = set_col ''body_length'' body_length df5;
           df7 = set_col ''word_count'' (map (str_len_cell \<circ> str_split_ws_cell) body) df6;
           df8 = set_scalar ''created_at'' (PStr now) df7;
           df9 = set_col ''post_category'' (map category_astype_str category) df8
       in Inr df9)))))))"

subsection \<open>Users\<close>

text \<open>\<open>d.get(k, default)\<close>.\<close>

definition dict_get :: "pydict \<Rightarrow> string \<Rightarrow> pyval \<Rightarrow> pyval" where
  "dict_get d k dflt = (case map_of d k of None \<Rightarrow> dflt | Some v \<Rightarrow> v)"

text \<open>\<open>lambda x: x.get(k, "") if isinstance(x, dict) else ""\<close>.\<close>

fun get_or_empty :: "string \<Rightarrow> pyval \<Rightarrow> pyval" where
  "get_or_empty k (PDict d) = dict_get d k (PStr [])"
| "get_or_empty k v = PStr []"

text \<open>
  \<open>lambda x: x.get("geo", {}).get(k, None) if isinstance(x, dict) else None\<close>: when
  the address has a \<open>geo\<close> entry that is not a dictionary, the second \<open>.get\<close> raises
  \<open>AttributeError\<close>.
\<close>

fun geo_get :: "string \<Rightarrow> pyval \<Rightarrow> error + pyval" where
  "geo_get k (PDict d) =
     (case dict_get d ''geo'' (PDict []) of
        PDict g \<Rightarrow> Inr (dict_get g k PNull)
      | _ \<Rightarrow> Inl (AttributeError ''object has no attribute get''))"
| "geo_get k v = Inr PNull"

text \<open>\<open>Series.apply(f)\<close>: element by element, the first exception ends it.\<close>

fun apply_series :: "(pyval \<Rightarrow> error + pyval) \<Rightarrow> pyval list \<Rightarrow> error + pyval list" where
  "apply_series f [] = Inr []"
| "apply_series f (x # xs) =
     bindE (f x) (\<lambda>y. bindE (apply_series f xs) (\<lambda>ys. Inr (y # ys)))"

text \<open>
  \<open>pd.to_numeric(series, errors="coerce")\<close>. A column of nothing but booleans is
  returned as it is. Otherwise, element by element: a number stays (held in the dtype of
  the result, see \<open>up\<close> above), a boolean is the number 1 or 0, a text is parsed by
  pandas' float parser \<open>to_float\<close> (a parameter of the model: \<open>None\<close> when the
  text is no number), anything else and every text that does not parse is \<open>NaN\<close>.
\<close>

fun to_numeric_cell ::
  "(pyval list \<Rightarrow> real \<Rightarrow> real) \<Rightarrow> (string \<Rightarrow> real option) \<Rightarrow> pyval list \<Rightarrow> pyval \<Rightarrow> pyval" where
  "to_numeric_cell up to_float col (PNum x) = PNum (up col x)"
| "to_numeric_cell up to_float col (PBool b) = PNum (if b then 1 else 0)"
| "to_numeric_cell up to_float col (PStr s) =
     (case to_float s of None \<Rightarrow> PNull | Some x \<Rightarrow> PNum x)"
| "to_numeric_cell up to_float col v = PNull"

fun is_bool :: "pyval \<Rightarrow> bool" where
  "is_bool (PBool b) = True"
| "is_bool v = False"

definition to_numeric ::
  "(pyval list \<Rightarrow> real \<Rightarrow> real) \<Rightarrow> (string \<Rightarrow> real option) \<Rightarrow> pyval list \<Rightarrow> pyval list" where
  "to_numeric up to_float col =
     (if list_all is_bool col then col else map (to_numeric_cell up to_float col) col)"

definition fillna_cell :: "pyval \<Rightarrow> pyval \<Rightarrow> pyval" where
  "fillna_cell fill v = (if isna v then fill else v)"

text \<open>\<open>df.fillna(value)\<close> replaces the missing values of every column.\<close>

definition fillna :: "pyval \<Rightarrow> frame \<Rightarrow> frame" where
  "fillna fill df = df\<lparr>columns := map (\<lambda>(k, vs). (k, map (fillna_cell fill) vs)) (columns df)\<rparr>"

text \<open>\<open>~(lat.isna() | lng.isna())\<close>.\<close>

definition both_present :: "pyval list \<Rightarrow> pyval list \<Rightarrow> pyval list" where
  "both_present lat lng = map (\<lambda>(a, b). PBool (\<not> (isna a \<or> isna b))) (zip lat lng)"

text \<open>
  \<open>transform_users_data\<close>; \<open>now\<close> is \<open>datetime.now().isoformat()\<close>. The
  \<open>.str\<close> access on the lower-cased email column, for \<open>email_domain\<close>, comes
  after the company columns.
\<close>

definition transform_users_data ::
  "(pyval list \<Rightarrow> real \<Rightarrow> real) \<Rightarrow> (string \<Rightarrow> real option) \<Rightarrow> string \<Rightarrow> pydict list \<Rightarrow>
     error + frame" where
  "transform_users_data up to_float now users_data =
     bindE (getitem up users_data ''id'') (\<lambda>c_id.
     bindE (getitem up users_data ''username'') (\<lambda>c_username.
     bindE (getitem up users_data ''name'') (\<lambda>c_name.
     bindE (getitem_str up users_data ''email'') (\<lambda>c_email.
     bindE (getitem up users_data ''phone'') (\<lambda>c_phone.
     bindE (getitem up users_data ''website'') (\<lambda>c_website.
     bindE (getitem up users_data ''address'') (\<lambda>c_address.
     bindE (apply_series (geo_get ''lat'') c_address) (\<lambda>lat_raw.
     bindE (apply_series (geo_get ''lng'') c_address) (\<lambda>lng_raw.
     bindE (getitem up users_data ''company'') (\<lambda>c_company.
     bindE (str_again c_email) (\<lambda>u1.
       let email = map str_lower_cell c_email;
           lat = to_numeric up to_float lat_raw;
           lng = to_numeric up to_float lng_raw;
           df1 = set_col ''user_id'' c_id empty_frame;
           df2 = set_col ''username'' c_username df1;
           df3 = set_col ''name'' c_name df2;
           df4 = set_col ''email'' email df3;
           df5 = set_col ''phone'' c_phone df4;
           df6 = set_col ''website'' c_website df5;
           df7 = set_col ''city'' (map (get_or_empty ''city'') c_address) df6;
           df8 = set_col ''zipcode'' (map (get_or_empty ''zipcode'') c_address) df7;
           df9 = set_col ''lat'' lat df8;
           df10 = set_col ''lng'' lng df9;
           df11 = set_col ''company_name'' (map (get_or_empty ''name'') c_company) df10;
           df12 = set_col ''company_catchphrase''
                    (map (get_or_empty ''catchPhrase'') c_company) df11;
           df13 = set_col ''email_domain''
                    (map (str_get_cell 1 \<circ> str_split_cell (CHR ''@'')) email) df12;
           df14 = set_col ''has_coordinates'' (both_present lat lng) df13;
           df15 = set_scalar ''created_at'' (PStr now) df14
       in Inr (fillna (PStr []) df15))))))))))))"

text \<open>A float parser for the examples: it knows the texts \<open>1.0\<close> and \<open>2.0\<close>.\<close>

definition to_float_example :: "string \<Rightarrow> real option" where
  "to_float_example s = (if s = ''1.0'' then Some 1 else if s = ''2.0'' then Some 2 else None)"

text \<open>The value \<open>geo_get\<close> returns, where it returns.\<close>

definition geo_val :: "string \<Rightarrow> pyval \<Rightarrow> pyval" where
  "geo_val k x = (case geo_get k x of Inl e \<Rightarrow> PNull | Inr v \<Rightarrow> v)"

section \<open>Loader\<close>

text \<open>
  The storage engine and the file system are outside the program. The model holds the
  tables as lists of rows and reads everything else from an environment: the processed
  snapshots by path, pandas' timestamp parser (how it reads an element of a column, whose
  format it may guess from the column), and the faults of the engine (the message of the
  exception that creating the schema, or writing a frame into a table, raises).
\<close>

type_synonym db = "string \<Rightarrow> pydict list option"

record loader_env =
  today :: string
  processed_dir :: string
  processed_files :: "string \<Rightarrow> frame option"
  parse_timestamp :: "pyval list \<Rightarrow> pyval \<Rightarrow> int option"
  create_fault :: "string option"
  to_sql_fault :: "string \<Rightarrow> frame \<Rightarrow> string option"

definition LENGTH_RULES :: "(string \<times> (string \<times> nat) list) list" where
  "LENGTH_RULES =
     [(''users'',
        [(''username'', 100), (''name'', 200), (''email'', 200), (''phone'', 50),
         (''website'', 200), (''city'', 100), (''zipcode'', 20), (''company_name'', 200),
         (''email_domain'', 100)]),
      (''posts'', [(''title'', 500), (''post_category'', 20)])]"

text \<open>\<open>Base.metadata.create_all\<close>: the tables \<open>users\<close> and \<open>posts\<close> exist afterwards.\<close>

definition create_tables :: "loader_env \<Rightarrow> db \<Rightarrow> error + db" where
  "create_tables env d =
     (case create_fault env of
        Some m \<Rightarrow> Inl (StorageError m)
      | None \<Rightarrow>
          (let d1 = (if Option.is_none (d ''users'') then d(''users'' \<mapsto> []) else d);
               d2 = (if Option.is_none (d1 ''posts'') then d1(''posts'' \<mapsto> []) else d1)
           in Inr d2))"

definition file_path :: "loader_env \<Rightarrow> string \<Rightarrow> string \<Rightarrow> string" where
  "file_path env date filename = processed_dir env @ ''/'' @ date @ ''/'' @ filename"

definition load_processed_data :: "loader_env \<Rightarrow> string \<Rightarrow> string option \<Rightarrow> error + frame" where
  "load_processed_data env filename date =
     (let date' = (case date of None \<Rightarrow> today env | Some d \<Rightarrow> d);
          path = file_path env date' filename
      in case processed_files env path of
           None \<Rightarrow> Inl (FileNotFoundError (''File not found: '' @ path))
         | Some df \<Rightarrow> Inr df)"

text \<open>
  \<open>pd.to_datetime(series, errors="coerce")\<close>, element by element: what the parser does
  not read becomes \<open>NaT\<close>.
\<close>

definition to_datetime_cell :: "(pyval \<Rightarrow> int option) \<Rightarrow> pyval \<Rightarrow> pyval" where
  "to_datetime_cell parse v = (case parse v of None \<Rightarrow> PNull | Some t \<Rightarrow> PTime t)"

text \<open>
  \<open>pd.api.types.is_string_dtype(series)\<close> on a column of objects: every element is a
  text. (A column of another dtype holds no text at all.)
\<close>

definition is_string_dtype :: "pyval list \<Rightarrow> bool" where
  "is_string_dtype vs = list_all is_str vs"

text \<open>
  \<open>.astype(str).str[:max_len]\<close> on one element. \<open>astype(str)\<close> is only reached on
  columns of texts, which it leaves as they are.
\<close>

fun astype_str_cell :: "pyval \<Rightarrow> pyval" where
  "astype_str_cell v = v"

fun str_slice_cell :: "nat \<Rightarrow> pyval \<Rightarrow> pyval" where
  "str_slice_cell n (PStr s) = PStr (take n s)"
| "str_slice_cell n (PList xs) = PList (take n xs)"
| "str_slice_cell n v = PNull"

text \<open>One round of the loop over \<open>LENGTH_RULES[table_type].items()\<close>.\<close>

definition truncate_col :: "string \<times> nat \<Rightarrow> frame \<Rightarrow> frame" where
  "truncate_col rule df =
     (case map_of (columns df) (fst rule) of
        None \<Rightarrow> df
      | Some vs \<Rightarrow>
          if is_string_dtype vs
          then set_col (fst rule) (map (str_slice_cell (snd rule) \<circ> astype_str_cell) vs) df
          else df)"

definition clean_dataframe_for_db :: "loader_env \<Rightarrow> frame \<Rightarrow> string \<Rightarrow> frame" where
  "clean_dataframe_for_db env df table_type =
     (let df1 = (case map_of (columns df) ''created_at'' of
                   None \<Rightarrow> df
                 | Some vs \<Rightarrow>
                     set_col ''created_at'' (map (to_datetime_cell (parse_timestamp env vs)) vs) df)
      in case map_of LENGTH_RULES table_type of
           None \<Rightarrow> df1
         | Some rules \<Rightarrow> fold truncate_col rules df1)"

text \<open>The rows of a frame as dictionaries (what \<open>to_sql\<close> inserts, what \<open>to_dict('records')\<close> returns).\<close>

definition to_records :: "frame \<Rightarrow> pydict list" where
  "to_records df =
     map (\<lambda>i. map (\<lambda>kv. (fst kv, cell_of (frame_cell df (fst kv) i))) (columns df))
       [0 ..< index_len df]"

datatype if_exists = Fail | Replace | Append

text \<open>
  \<open>df.to_sql(table_name, engine, if_exists=..., index=False)\<close>. \<open>fail\<close> refuses
  an existing table. Otherwise the table is made ready first (\<open>replace\<close> drops an
  existing table and creates it anew, empty; a table that does not exist is created) and
  the frame's rows are inserted then. On SQLite the drop and the creation are committed
  before the insertion starts, so an insertion that fails leaves the table as it was made
  ready: emptied under \<open>replace\<close>. \<open>to_sql_fault\<close> is the fault of the insertion.
  An error comes with the tables it leaves behind.
\<close>

definition insert_rows ::
  "loader_env \<Rightarrow> db \<Rightarrow> frame \<Rightarrow> string \<Rightarrow> pydict list \<Rightarrow> (error \<times> db) + db" where
  "insert_rows env d df table_name ready =
     (case to_sql_fault env table_name df of
        Some m \<Rightarrow> Inl (StorageError m, d(table_name \<mapsto> ready))
      | None \<Rightarrow> Inr (d(table_name \<mapsto> ready @ to_records df)))"

definition to_sql ::
  "loader_env \<Rightarrow> db \<Rightarrow> frame \<Rightarrow> string \<Rightarrow> if_exists \<Rightarrow> (error \<times> db) + db" where
  "to_sql env d df table_name mode =
     (case d table_name of
        None \<Rightarrow> insert_rows env d df table_name []
      | Some old \<Rightarrow>
          (case mode of
             Fail \<Rightarrow> Inl (ValueError (''Table '' @ table_name @ '' already exists.''), d)
           | Replace \<Rightarrow> insert_rows env d df table_name []
           | Append \<Rightarrow> insert_rows env d df table_name old))"

text \<open>
  \<open>load_to_database\<close>: the handler logs and raises the exception again. The parameter
  \<open>if_exists\<close> defaults to \<open>"replace"\<close>, and no caller passes another value.
\<close>

definition load_to_database ::
  "loader_env \<Rightarrow> db \<Rightarrow> frame \<Rightarrow> string \<Rightarrow> if_exists \<Rightarrow> (error \<times> db) + db" where
  "load_to_database env d df table_name mode =
     (case to_sql env d df table_name mode of
        Inl e \<Rightarrow> Inl e
      | Inr d' \<Rightarrow> Inr d')"

record load_result =
  table :: string
  count :: nat
  error_msg :: "string option"

text \<open>\<open>SELECT COUNT(*) FROM table\<close>; the engine raises when the table does not exist.\<close>

definition verify_data_load :: "db \<Rightarrow> string \<Rightarrow> error + load_result" where
  "verify_data_load d table_name =
     (case d table_name of
        None \<Rightarrow> Inl (StorageError (''no such table: '' @ table_name))
      | Some rows \<Rightarrow> Inr \<lparr>table = table_name, count = length rows, error_msg = None\<rparr>)"

text \<open>
  The body of each \<open>try\<close> block of \<open>load_all_data\<close>. An exception comes with
  the tables the block leaves behind: untouched when the file is missing, as the failed
  write left them when the write fails.
\<close>

definition load_block ::
  "loader_env \<Rightarrow> db \<Rightarrow> string option \<Rightarrow> string \<Rightarrow> string \<Rightarrow>
     (error \<times> db) + (db \<times> load_result)" where
  "load_block env d date filename kind =
     (case load_processed_data env filename date of
        Inl e \<Rightarrow> Inl (e, d)
      | Inr df \<Rightarrow>
          (case load_to_database env d (clean_dataframe_for_db env df kind) kind Replace of
             Inl e \<Rightarrow> Inl e
           | Inr d' \<Rightarrow>
               (case verify_data_load d' kind of
                  Inl e \<Rightarrow> Inl (e, d')
                | Inr r \<Rightarrow> Inr (d', r))))"

text \<open>
  \<open>load_all_data\<close>: \<open>create_tables\<close> runs outside the handlers; each block is wrapped
  in \<open>except Exception\<close>, which stores a result with count 0 and the message, whatever
  the exception is.
\<close>

definition load_all_data ::
  "loader_env \<Rightarrow> db \<Rightarrow> string option \<Rightarrow> error + (db \<times> (string \<times> load_result) list)" where
  "load_all_data env d date =
     bindE (create_tables env d) (\<lambda>d0.
       let (d1, users) =
             (case load_block env d0 date ''users.parquet'' ''users'' of
                Inr ok \<Rightarrow> ok
              | Inl e \<Rightarrow>
                  (snd e,
                   \<lparr>table = ''users'', count = 0, error_msg = Some (str_of_error (fst e))\<rparr>));
           (d2, posts) =
             (case load_block env d1 date ''posts.parquet'' ''posts'' of
                Inr ok \<Rightarrow> ok
              | Inl e \<Rightarrow>
                  (snd e,
                   \<lparr>table = ''posts'', count = 0, error_msg = Some (str_of_error (fst e))\<rparr>))
       in Inr (d2, [(''users'', users), (''posts'', posts)]))"

section \<open>Analytics\<close>

text \<open>
  \<open>pd.read_sql(query, conn)\<close> is the engine's: the environment gives, for a query text,
  the frame it returns or the exception it raises.
\<close>

record analytics_env =
  run_sql :: "string \<Rightarrow> error + frame"
  generated_at_now :: string
  db_path :: string

definition execute_query :: "analytics_env \<Rightarrow> string \<Rightarrow> string \<Rightarrow> error + frame" where
  "execute_query env query query_name =
     (case run_sql env query of
        Inr df \<Rightarrow> Inr df
      | Inl e \<Rightarrow> Inl e)"

text \<open>The three query texts, with runs of white space written as one blank.\<close>

definition user_statistics_sql :: string where
  "user_statistics_sql =
     ''SELECT COUNT(*) as total_users, COUNT(DISTINCT email_domain) as unique_domains, '' @
     ''COUNT(CASE WHEN has_coordinates = 1 THEN 1 END) as users_with_coordinates, '' @
     ''COUNT(CASE WHEN company_name != '' @ [CHR 0x27, CHR 0x27] @
     '' THEN 1 END) as users_with_company FROM users''"

definition post_statistics_sql :: string where
  "post_statistics_sql =
     ''SELECT COUNT(*) as total_posts, COUNT(DISTINCT user_id) as unique_authors, '' @
     ''AVG(title_length) as avg_title_length, AVG(body_length) as avg_body_length, '' @
     ''AVG(word_count) as avg_word_count, MAX(body_length) as max_body_length, '' @
     ''MIN(body_length) as min_body_length FROM posts''"

definition user_post_activity_sql :: string where
  "user_post_activity_sql =
     ''SELECT u.user_id, u.username, u.name, u.email_domain, COUNT(p.post_id) as post_count, '' @
     ''AVG(p.word_count) as avg_post_length, MAX(p.body_length) as max_post_length '' @
     ''FROM users u LEFT JOIN posts p ON u.user_id = p.user_id '' @
     ''GROUP BY u.user_id, u.username, u.name, u.email_domain ORDER BY post_count DESC''"

definition user_statistics :: "analytics_env \<Rightarrow> error + frame" where
  "user_statistics env = execute_query env user_statistics_sql ''user_statistics''"

definition post_statistics :: "analytics_env \<Rightarrow> error + frame" where
  "post_statistics env = execute_query env post_statistics_sql ''post_statistics''"

definition user_post_activity :: "analytics_env \<Rightarrow> error + frame" where
  "user_post_activity env = execute_query env user_post_activity_sql ''user_post_activity''"

text \<open>An entry of \<open>report["analytics"]\<close>; a key the dictionary lacks is \<open>None\<close>.\<close>

record analysis =
  error_str :: "string option"
  data :: "pydict list"
  record_count :: nat
  column_names :: "string list option"

record report =
  generated_at :: string
  database :: string
  analytics :: "(string \<times> analysis) list"

definition analytics_functions :: "(string \<times> (analytics_env \<Rightarrow> error + frame)) list" where
  "analytics_functions =
     [(''user_statistics'', user_statistics),
      (''post_statistics'', post_statistics),
      (''user_post_activity'', user_post_activity)]"

text \<open>The body of the loop of \<open>generate_report\<close>: the \<open>try\<close> and its handler.\<close>

definition report_step ::
  "analytics_env \<Rightarrow> string \<times> (analytics_env \<Rightarrow> error + frame) \<Rightarrow> report \<Rightarrow> report" where
  "report_step env nf rep =
     (case snd nf env of
        Inr df \<Rightarrow>
          rep\<lparr>analytics := AList.update (fst nf)
                \<lparr>error_str = None, data = to_records df, record_count = index_len df,
                 column_names = Some (map fst (columns df))\<rparr> (analytics rep)\<rparr>
      | Inl e \<Rightarrow>
          rep\<lparr>analytics := AList.update (fst nf)
                \<lparr>error_str = Some (str_of_error e), data = [], record_count = 0,
                 column_names = None\<rparr> (analytics rep)\<rparr>)"

definition generate_report :: "analytics_env \<Rightarrow> report" where
  "generate_report env =
     fold (report_step env) analytics_functions
       \<lparr>generated_at = generated_at_now env, database = db_path env, analytics = []\<rparr>"

text \<open>The entry the loop stores for the outcome of one query.\<close>

definition result_entry :: "error + frame \<Rightarrow> analysis" where
  "result_entry r =
     (case r of
        Inr df \<Rightarrow> \<lparr>error_str = None, data = to_records df, record_count = index_len df,
                   column_names = Some (map fst (columns df))\<rparr>
      | Inl e \<Rightarrow> \<lparr>error_str = Some (str_of_error e), data = [], record_count = 0,
                  column_names = None\<rparr>)"

section \<open>Example inputs\<close>

definition ts_example :: string where
  "ts_example = ''2024-01-01T00:00:00''"

definition user_bob :: pydict where
  "user_bob =
     [(''id'', PNum 1), (''username'', PStr ''bob''), (''name'', PStr ''Bob''),
      (''email'', PStr ''BOB@X.com''), (''phone'', PStr ''555''), (''website'', PStr ''bob.org''),
      (''address'', PDict [(''city'', PStr ''A''), (''zipcode'', PStr ''1''),
                          (''geo'', PDict [(''lat'', PStr ''1.0''), (''lng'', PStr ''2.0'')])]),
      (''company'', PDict [(''name'', PStr ''Acme''), (''catchPhrase'', PStr ''go'')])]"

text \<open>A user whose address and company blocks are empty.\<close>

definition user_amy :: pydict where
  "user_amy =
     [(''id'', PNum 2), (''username'', PStr ''amy''), (''name'', PStr ''Amy''),
      (''email'', PStr ''amy@y.org''), (''phone'', PStr ''556''), (''website'', PStr ''amy.org''),
      (''address'', PDict []), (''company'', PDict [])]"

text \<open>A user whose geo block has a latitude and no longitude.\<close>

definition user_cat :: pydict where
  "user_cat =
     [(''id'', PNum 3), (''username'', PStr ''cat''), (''name'', PStr ''Cat''),
      (''email'', PStr ''cat@z.net''), (''phone'', PStr ''557''), (''website'', PStr ''cat.org''),
      (''address'', PDict [(''city'', PStr ''B''), (''zipcode'', PStr ''2''),
                          (''geo'', PDict [(''lat'', PStr ''1.0'')])]),
      (''company'', PDict [(''name'', PStr ''Zed''), (''catchPhrase'', PStr ''meow'')])]"

text \<open>A post whose body is one blank, and an ordinary one.\<close>

definition post_blank :: pydict where
  "post_blank = [(''id'', PNum 1), (''userId'', PNum 1), (''title'', PStr ''hello''), (''body'', PStr '' '')]"

definition post_note :: pydict where
  "post_note = [(''id'', PNum 2), (''userId'', PNum 1), (''title'', PStr '' note ''), (''body'', PStr ''a b'')]"

text \<open>Two processed snapshots, a timestamp parser that reads one text, and environments.\<close>

definition users_df_example :: frame where
  "users_df_example =
     \<lparr>index_len = 2,
      columns =
        [(''user_id'', [PNum 1, PNum 2]),
         (''username'', [PStr ''bob'', PStr ''amy'']),
         (''zipcode'', [PStr ''0123456789012345678901234'', PStr ''99'']),
         (''created_at'', [PStr ''2024-01-01T00:00:00'', PStr ''yesterday''])]\<rparr>"

definition posts_df_example :: frame where
  "posts_df_example =
     \<lparr>index_len = 1,
      columns = [(''post_id'', [PNum 1]), (''title'', [PStr ''hello'']),
                 (''post_category'', [PStr ''short''])]\<rparr>"

definition parse_example :: "pyval list \<Rightarrow> pyval \<Rightarrow> int option" where
  "parse_example vs v = (if v = PStr ''2024-01-01T00:00:00'' then Some 0 else None)"

definition files_example :: "string \<Rightarrow> frame option" where
  "files_example path =
     (if path = ''data/processed/2024-01-01/users.parquet'' then Some users_df_example
      else if path = ''data/processed/2024-01-01/posts.parquet'' then Some posts_df_example
      else None)"

definition posts_only_files :: "string \<Rightarrow> frame option" where
  "posts_only_files path =
     (if path = ''data/processed/2024-01-01/posts.parquet'' then Some posts_df_example else None)"

definition no_fault :: "string \<Rightarrow> frame \<Rightarrow> string option" where
  "no_fault table_name df = None"

definition users_fault :: "string \<Rightarrow> frame \<Rightarrow> string option" where
  "users_fault table_name df = (if table_name = ''users'' then Some ''database is locked'' else None)"

definition env_example :: loader_env where
  "env_example =
     \<lparr>today = ''2024-01-01'', processed_dir = ''data/processed'',
      processed_files = files_example, parse_timestamp = parse_example,
      create_fault = None, to_sql_fault = no_fault\<rparr>"

definition env_users_fault :: loader_env where
  "env_users_fault = env_example\<lparr>to_sql_fault := users_fault\<rparr>"

definition env_no_users :: loader_env where
  "env_no_users = env_example\<lparr>processed_files := posts_only_files\<rparr>"

definition db_empty :: db where
  "db_empty = Map.empty"

text \<open>A database whose table \<open>users\<close> holds a row of an earlier load.\<close>

definition db_old :: db where
  "db_old = db_empty(''users'' \<mapsto> [[(''user_id'', PNum 9)]])"

text \<open>A snapshot whose \<open>zipcode\<close> column holds a text of 25 characters and a missing value.\<close>

definition zip_df_example :: frame where
  "zip_df_example =
     \<lparr>index_len = 2,
      columns = [(''zipcode'', [PStr ''0123456789012345678901234'', PNull])]\<rparr>"

definition stats_frame_example :: frame where
  "stats_frame_example = \<lparr>index_len = 1, columns = [(''total_posts'', [PNum 3])]\<rparr>"

text \<open>An engine without the table \<open>users\<close>: the first query fails, the others return.\<close>

definition run_sql_example :: "string \<Rightarrow> error + frame" where
  "run_sql_example q =
     (if q = user_statistics_sql then Inl (QueryError ''no such table: users'')
      else Inr stats_frame_example)"

definition aenv_example :: analytics_env where
  "aenv_example =
     \<lparr>run_sql = run_sql_example, generated_at_now = ts_example, db_path = ''local.db''\<rparr>"

section \<open>Properties of the transformer\<close>

subsection \<open>What the transformations return\<close>

lemma bindE_Inr_iff: "bindE m f = Inr y \<longleftrightarrow> (\<exists>v. m = Inr v \<and> f v = Inr y)"
  by (cases m) (simp_all add: bindE_def)

lemma length_passed_column: "length (passed_column up recs k) = length recs"
  by (simp add: passed_column_def column_cells_def raw_column_def)

lemma nth_passed_column:
  "i < length recs \<Longrightarrow>
     passed_column up recs k ! i = upcast_cell up (column_cells recs k) (cell_of (map_of (recs ! i) k))"
  by (simp add: passed_column_def column_cells_def raw_column_def)

lemma getitem_Inr: "getitem up recs k = Inr col \<Longrightarrow> col = passed_column up recs k"
  by (auto simp: getitem_def split: if_splits)

lemma getitem_str_Inr: "getitem_str up recs k = Inr col \<Longrightarrow> col = passed_column up recs k"
  by (auto simp: getitem_str_def bindE_Inr_iff split: if_splits dest: getitem_Inr)

lemma apply_series_Inr: "apply_series (geo_get k) xs = Inr ys \<Longrightarrow> ys = map (geo_val k) xs"
  by (induction xs arbitrary: ys) (auto simp: bindE_Inr_iff geo_val_def)

lemma length_to_numeric: "length (to_numeric up tf col) = length col"
  by (simp add: to_numeric_def)

lemma users_frame:
  assumes "transform_users_data up tf now us = Inr df"
  shows "df = \<lparr>index_len = length us, columns =
     [(''user_id'', map (fillna_cell (PStr [])) (passed_column up us ''id'')),
      (''username'', map (fillna_cell (PStr [])) (passed_column up us ''username'')),
      (''name'', map (fillna_cell (PStr [])) (passed_column up us ''name'')),
      (''email'', map (fillna_cell (PStr [])) (map str_lower_cell (passed_column up us ''email''))),
      (''phone'', map (fillna_cell (PStr [])) (passed_column up us ''phone'')),
      (''website'', map (fillna_cell (PStr [])) (passed_column up us ''website'')),
      (''city'', map (fillna_cell (PStr []))
                  (map (get_or_empty ''city'') (passed_column up us ''address''))),
      (''zipcode'', map (fillna_cell (PStr []))
                  (map (get_or_empty ''zipcode'') (passed_column up us ''address''))),
      (''lat'', map (fillna_cell (PStr []))
                  (to_numeric up tf (map (geo_val ''lat'') (passed_column up us ''address'')))),
      (''lng'', map (fillna_cell (PStr []))
                  (to_numeric up tf (map (geo_val ''lng'') (passed_column up us ''address'')))),
      (''company_name'', map (fillna_cell (PStr []))
                  (map (get_or_empty ''name'') (passed_column up us ''company''))),
      (''company_catchphrase'', map (fillna_cell (PStr []))
                  (map (get_or_empty ''catchPhrase'') (passed_column up us ''company''))),
      (''email_domain'', map (fillna_cell (PStr []))
                  (map (str_get_cell 1 \<circ> str_split_cell (CHR ''@''))
                     (map str_lower_cell (passed_column up us ''email'')))),
      (''has_coordinates'', map (fillna_cell (PStr []))
                  (both_present
                     (to_numeric up tf (map (geo_val ''lat'') (passed_column up us ''address'')))
                     (to_numeric up tf (map (geo_val ''lng'') (passed_column up us ''address''))))),
      (''created_at'', map (fillna_cell (PStr [])) (replicate (length us) (PStr now)))]\<rparr>"
proof -
  from assms obtain c_id c_username c_name c_email c_phone c_website c_address lat_raw lng_raw c_company
    where g: "getitem up us ''id'' = Inr c_id" "getitem up us ''username'' = Inr c_username"
      "getitem up us ''name'' = Inr c_name" "getitem_str up us ''email'' = Inr c_email"
      "getitem up us ''phone'' = Inr c_phone" "getitem up us ''website'' = Inr c_website"
      "getitem up us ''address'' = Inr c_address"
      "apply_series (geo_get ''lat'') c_address = Inr lat_raw"
      "apply_series (geo_get ''lng'') c_address = Inr lng_raw"
      "getitem up us ''company'' = Inr c_company"
    and df: "df = fillna (PStr [])
       (set_scalar ''created_at'' (PStr now)
       (set_col ''has_coordinates'' (both_present (to_numeric up tf lat_raw) (to_numeric up tf lng_raw))
       (set_col ''email_domain'' (map (str_get_cell 1 \<circ> str_split_cell (CHR ''@'')) (map str_lower_cell c_email))
       (set_col ''company_catchphrase'' (map (get_or_empty ''catchPhrase'') c_company)
       (set_col ''company_name'' (map (get_or_empty ''name'') c_company)
       (set_col ''lng'' (to_numeric up tf lng_raw)
       (set_col ''lat'' (to_numeric up tf lat_raw)
       (set_col ''zipcode'' (map (get_or_empty ''zipcode'') c_address)
       (set_col ''city'' (map (get_or_empty ''city'') c_address)
       (set_col ''website'' c_website
       (set_col ''phone'' c_phone
       (set_col ''email'' (map str_lower_cell c_email)
       (set_col ''name'' c_name
       (set_col ''username'' c_username
       (set_col ''user_id'' c_id empty_frame)))))))))))))))"
    unfolding transform_users_data_def bindE_Inr_iff Let_def by auto
  note cols = getitem_Inr[OF g(1)] getitem_Inr[OF g(2)] getitem_Inr[OF g(3)] getitem_str_Inr[OF g(4)]
    getitem_Inr[OF g(5)] getitem_Inr[OF g(6)] getitem_Inr[OF g(7)] getitem_Inr[OF g(10)]
  have lat: "lat_raw = map (geo_val ''lat'') c_address" using g(8) by (rule apply_series_Inr)
  have lng: "lng_raw = map (geo_val ''lng'') c_address" using g(9) by (rule apply_series_Inr)
  show ?thesis
    unfolding df lat lng cols
    by (simp add: set_col_def set_scalar_def empty_frame_def fillna_def length_passed_column)
qed

lemma posts_frame:
  assumes "transform_posts_data up now ps = Inr df"
  shows "df = \<lparr>index_len = length ps, columns =
     [(''post_id'', passed_column up ps ''id''),
      (''user_id'', passed_column up ps ''userId''),
      (''title'', map str_strip_cell (passed_column up ps ''title'')),
      (''body'', map str_strip_cell (passed_column up ps ''body'')),
      (''title_length'', map str_len_cell (map str_strip_cell (passed_column up ps ''title''))),
      (''body_length'', map str_len_cell (map str_strip_cell (passed_column up ps ''body''))),
      (''word_count'', map (str_len_cell \<circ> str_split_ws_cell)
                         (map str_strip_cell (passed_column up ps ''body''))),
      (''created_at'', replicate (length ps) (PStr now)),
      (''post_category'', map (category_astype_str \<circ> cut_cell)
                         (map (str_len_cell \<circ> str_strip_cell) (passed_column up ps ''body'')))]\<rparr>"
proof -
  from assms obtain c_id c_user c_title c_body category
    where g: "getitem up ps ''id'' = Inr c_id" "getitem up ps ''userId'' = Inr c_user"
      "getitem_str up ps ''title'' = Inr c_title" "getitem_str up ps ''body'' = Inr c_body"
      "cut_series (map (str_len_cell \<circ> str_strip_cell) c_body) = Inr category"
    and df: "df = set_col ''post_category'' (map category_astype_str category)
        (set_scalar ''created_at'' (PStr now)
        (set_col ''word_count'' (map (str_len_cell \<circ> str_split_ws_cell) (map str_strip_cell c_body))
        (set_col ''body_length'' (map str_len_cell (map str_strip_cell c_body))
        (set_col ''title_length'' (map str_len_cell (map str_strip_cell c_title))
        (set_col ''body'' (map str_strip_cell c_body)
        (set_col ''title'' (map str_strip_cell c_title)
        (set_col ''user_id'' c_user
        (set_col ''post_id'' c_id empty_frame))))))))"
    unfolding transform_posts_data_def bindE_Inr_iff Let_def by auto
  have cat: "category = map cut_cell (map (str_len_cell \<circ> str_strip_cell) c_body)"
    using g(5) by (simp add: cut_series_def split: if_splits)
  note cols = getitem_Inr[OF g(1)] getitem_Inr[OF g(2)] getitem_str_Inr[OF g(3)] getitem_str_Inr[OF g(4)]
  show ?thesis
    unfolding df cat cols
    by (simp add: set_col_def set_scalar_def empty_frame_def length_passed_column)
qed

subsection \<open>Splitting and lower-casing\<close>

lemma split_on_aux_no_sep: "d \<notin> set s \<Longrightarrow> split_on_aux d cur s = [cur @ s]"
  by (induction s arbitrary: cur) auto

lemma split_on_aux_first:
  "d \<in> set s \<Longrightarrow> split_on_aux d cur s =
     (cur @ takeWhile (\<lambda>c. c \<noteq> d) s) # split_on_aux d [] (tl (dropWhile (\<lambda>c. c \<noteq> d) s))"
  by (induction s arbitrary: cur) auto

lemma count_list_0_iff': "count_list s d = 0 \<longleftrightarrow> d \<notin> set s"
  by (induction s) auto

lemma count_one_rest:
  "count_list s d = Suc 0 \<Longrightarrow> d \<in> set s \<and> d \<notin> set (tl (dropWhile (\<lambda>c. c \<noteq> d) s))"
  by (induction s) (auto simp: count_list_0_iff' split: if_splits)

lemma split_on_one:
  assumes "count_list s d = 1"
  shows "split_on d s = [takeWhile (\<lambda>c. c \<noteq> d) s, tl (dropWhile (\<lambda>c. c \<noteq> d) s)]"
  using count_one_rest[of s d] assms
  by (simp add: split_on_def split_on_aux_first split_on_aux_no_sep)

lemma lower_char_at: "lower_char c = CHR ''@'' \<longleftrightarrow> c = CHR ''@''"
proof
  assume "c = CHR ''@''"
  then show "lower_char c = CHR ''@''" by (simp add: lower_char_def is_upper_def)
next
  assume a: "lower_char c = CHR ''@''"
  define n where "n = (of_char c :: nat)"
  show "c = CHR ''@''"
  proof (cases "is_upper c")
    case False
    with a show ?thesis by (simp add: lower_char_def)
  next
    case True
    then have r: "65 \<le> n" "n \<le> 222" by (auto simp: is_upper_def n_def Let_def)
    from True a have "char_of (n + 32) = CHR ''@''" by (simp add: lower_char_def n_def)
    then have "(of_char (char_of (n + 32)) :: nat) = of_char (CHR ''@'')" by (rule arg_cong)
    then have "(n + 32) mod 256 = 64" by simp
    moreover from r have "n + 32 < 256" by arith
    ultimately have "n + 32 = 64" by simp
    with r show ?thesis by arith
  qed
qed

lemma count_list_lower_at: "count_list (lower s) (CHR ''@'') = count_list s (CHR ''@'')"
  by (induction s) (auto simp: lower_def lower_char_at)

subsection \<open>Post categories\<close>

lemmas eval_defs = bindE_def getitem_def getitem_str_def has_column_def raw_column_def
  column_cells_def passed_column_def no_upcast_def str_accessor_ok_def str_again_def
  str_result_ok_def cut_series_def to_numeric_def set_col_def set_scalar_def empty_frame_def
  strip_def is_space_def cut_bins_def split_ws_def split_on_def lower_def lower_char_def
  is_upper_def dict_get_def fillna_def fillna_cell_def both_present_def to_float_example_def
  Let_def

text \<open>
  On a length the bins give the three categories by the thresholds 100 and 200, except at
  length 0, which lies in no bin.
\<close>

lemma cut_bins_of_length:
  "cut_bins (of_nat n) =
     (if n = 0 then None else if n \<le> 100 then Some ''short''
      else if n \<le> 200 then Some ''medium'' else Some ''long'')"
  by (simp add: cut_bins_def)

text \<open>
  Claim C1 says that every post is categorised \<open>short\<close>, \<open>medium\<close> or \<open>long\<close> from the
  length of its trimmed body, and that a post whose trimmed body is empty is \<open>short\<close>.
  The code differs at exactly that post: the body of \<open>post_blank\<close> trims to the empty
  text, its \<open>body_length\<close> is 0, and its \<open>post_category\<close> is the text \<open>nan\<close>.
\<close>

theorem blank_post_category_nan:
  "transform_posts_data no_upcast ts_example [post_blank] =
     Inr \<lparr>index_len = 1,
          columns =
            [(''post_id'', [PNum 1]), (''user_id'', [PNum 1]), (''title'', [PStr ''hello'']),
             (''body'', [PStr []]), (''title_length'', [PNum 5]), (''body_length'', [PNum 0]),
             (''word_count'', [PNum 0]), (''created_at'', [PStr ts_example]),
             (''post_category'', [PStr ''nan''])]\<rparr>"
  by (simp add: transform_posts_data_def post_blank_def eval_defs)

subsection \<open>Users\<close>

text \<open>
  Claim C2 says that the fields derived from an empty address or company block are empty
  texts, except \<open>lat\<close> and \<open>lng\<close>, which are null. The code returns without raising
  on \<open>user_amy\<close>, whose blocks are empty, and the final \<open>fillna("")\<close> has made
  \<open>lat\<close> and \<open>lng\<close> empty texts as well.
\<close>

theorem empty_address_lat_lng_empty_string:
  "transform_users_data no_upcast to_float_example ts_example [user_amy] =
     Inr \<lparr>index_len = 1,
          columns =
            [(''user_id'', [PNum 2]), (''username'', [PStr ''amy'']), (''name'', [PStr ''Amy'']),
             (''email'', [PStr ''amy@y.org'']), (''phone'', [PStr ''556'']),
             (''website'', [PStr ''amy.org'']), (''city'', [PStr []]), (''zipcode'', [PStr []]),
             (''lat'', [PStr []]), (''lng'', [PStr []]), (''company_name'', [PStr []]),
             (''company_catchphrase'', [PStr []]), (''email_domain'', [PStr ''y.org'']),
             (''has_coordinates'', [PBool False]), (''created_at'', [PStr ts_example])]\<rparr>"
  by (simp add: transform_users_data_def user_amy_def eval_defs)

text \<open>
  What holds of the coordinates in every returned row: neither is null (a missing one is
  the empty text), and \<open>has_coordinates\<close> is true exactly when neither is the empty
  text.
\<close>

lemma to_numeric_nth_cases:
  assumes "i < length col"
  shows "to_numeric up tf col ! i = PNull \<or> (\<exists>x. to_numeric up tf col ! i = PNum x) \<or>
         (\<exists>b. to_numeric up tf col ! i = PBool b)"
proof (cases "list_all is_bool col")
  case True
  with assms have "is_bool (col ! i)" by (simp add: list_all_length)
  then obtain b where "col ! i = PBool b" by (cases "col ! i") simp_all
  with True show ?thesis by (simp add: to_numeric_def)
next
  case False
  have "to_numeric_cell up tf col v = PNull \<or> (\<exists>x. to_numeric_cell up tf col v = PNum x)" for v
    by (cases v) (auto split: option.splits)
  with False assms show ?thesis by (auto simp: to_numeric_def)
qed

lemma coordinates_in_row:
  assumes "transform_users_data up tf now us = Inr df" and "i < length us"
  shows "frame_cell df ''lat'' i \<noteq> Some PNull \<and> frame_cell df ''lng'' i \<noteq> Some PNull \<and>
         (frame_cell df ''has_coordinates'' i = Some (PBool True) \<longleftrightarrow>
            frame_cell df ''lat'' i \<noteq> Some (PStr []) \<and> frame_cell df ''lng'' i \<noteq> Some (PStr []))"
proof -
  define la where "la = map (geo_val ''lat'') (passed_column up us ''address'')"
  define lo where "lo = map (geo_val ''lng'') (passed_column up us ''address'')"
  define a where "a = to_numeric up tf la ! i"
  define b where "b = to_numeric up tf lo ! i"
  have len: "i < length la" "i < length lo"
    using assms(2) by (simp_all add: la_def lo_def length_passed_column)
  have cells: "frame_cell df ''lat'' i = Some (fillna_cell (PStr []) a)"
    "frame_cell df ''lng'' i = Some (fillna_cell (PStr []) b)"
    "frame_cell df ''has_coordinates'' i = Some (PBool (\<not> (isna a \<or> isna b)))"
    unfolding users_frame[OF assms(1)] a_def b_def la_def lo_def
    using assms(2)
    by (simp_all add: frame_cell_def fillna_cell_def length_to_numeric length_passed_column
        both_present_def)
  from to_numeric_nth_cases[OF len(1), of up tf] to_numeric_nth_cases[OF len(2), of up tf]
  have "a = PNull \<or> (\<exists>x. a = PNum x) \<or> (\<exists>c. a = PBool c)"
    "b = PNull \<or> (\<exists>x. b = PNum x) \<or> (\<exists>c. b = PBool c)"
    unfolding a_def b_def by blast+
  then show ?thesis
    unfolding cells by (auto simp: fillna_cell_def)
qed

text \<open>
  Claim C5 says that \<open>has_coordinates\<close> is true exactly when the row's \<open>lat\<close> and
  \<open>lng\<close> are both non-null. The code computes it before \<open>fillna("")\<close>: for
  \<open>user_cat\<close>, who has a latitude and no longitude, \<open>has_coordinates\<close> is false
  while the row holds the number 1 in \<open>lat\<close> and the empty text, not null, in \<open>lng\<close>.
\<close>

theorem missing_lng_has_coordinates_false:
  "bindE (transform_users_data no_upcast to_float_example ts_example [user_cat])
     (\<lambda>df. Inr (frame_cell df ''has_coordinates'' 0, frame_cell df ''lat'' 0, frame_cell df ''lng'' 0)) =
   Inr (Some (PBool False), Some (PNum 1), Some (PStr []))"
  by (simp add: transform_users_data_def user_cat_def eval_defs frame_cell_def)

text \<open>
  Claim C4: when the transformation returns a frame and record \<open>i\<close> has an email text
  with exactly one \<open>@\<close>, row \<open>i\<close> holds the lower-cased email, and its
  \<open>email_domain\<close> is what follows the first \<open>@\<close> of the lower-cased email.
\<close>

theorem email_domain_after_first_at:
  assumes "transform_users_data up tf now us = Inr df"
    and "i < length us"
    and "map_of (us ! i) ''email'' = Some (PStr e)"
    and "count_list e (CHR ''@'') = 1"
  shows "frame_cell df ''email'' i = Some (PStr (lower e)) \<and>
         frame_cell df ''email_domain'' i =
           Some (PStr (tl (dropWhile (\<lambda>c. c \<noteq> CHR ''@'') (lower e))))"
proof -
  have one: "count_list (lower e) (CHR ''@'') = 1"
    using assms(4) by (simp add: count_list_lower_at)
  have sp: "str_get_cell 1 (str_split_cell (CHR ''@'') (PStr (lower e))) =
      PStr (tl (dropWhile (\<lambda>c. c \<noteq> CHR ''@'') (lower e)))"
    by (simp add: split_on_one[OF one])
  have c: "passed_column up us ''email'' ! i = PStr e"
    using assms(2,3) by (simp add: nth_passed_column)
  show ?thesis
    unfolding users_frame[OF assms(1)]
    using assms(2) c sp by (simp add: frame_cell_def fillna_cell_def length_passed_column)
qed

lemma lower_bob: "lower ''BOB@X.com'' = ''bob@x.com''"
  by code_simp

lemma bob_frame:
  "transform_users_data no_upcast to_float_example ts_example [user_bob] =
     Inr \<lparr>index_len = 1,
          columns =
            [(''user_id'', [PNum 1]), (''username'', [PStr ''bob'']), (''name'', [PStr ''Bob'']),
             (''email'', [PStr ''bob@x.com'']), (''phone'', [PStr ''555'']),
             (''website'', [PStr ''bob.org'']), (''city'', [PStr ''A'']), (''zipcode'', [PStr ''1'']),
             (''lat'', [PNum 1]), (''lng'', [PNum 2]), (''company_name'', [PStr ''Acme'']),
             (''company_catchphrase'', [PStr ''go'']), (''email_domain'', [PStr ''x.com'']),
             (''has_coordinates'', [PBool True]), (''created_at'', [PStr ts_example])]\<rparr>"
  by (simp add: transform_users_data_def user_bob_def lower_bob bindE_def getitem_def getitem_str_def
      has_column_def raw_column_def column_cells_def passed_column_def no_upcast_def
      str_accessor_ok_def str_again_def str_result_ok_def to_numeric_def set_col_def
      set_scalar_def empty_frame_def split_on_def dict_get_def fillna_def fillna_cell_def
      both_present_def to_float_example_def Let_def)

theorem email_domain_after_first_at_witness:
  "\<exists>df. transform_users_data no_upcast to_float_example ts_example [user_bob] = Inr df \<and>
     frame_cell df ''email'' 0 = Some (PStr ''bob@x.com'') \<and>
     frame_cell df ''email_domain'' 0 = Some (PStr ''x.com'')"
proof -
  have e: "map_of ([user_bob] ! 0) ''email'' = Some (PStr ''BOB@X.com'')"
    by (simp add: user_bob_def)
  have c: "count_list ''BOB@X.com'' (CHR ''@'') = 1" by simp
  from email_domain_after_first_at[OF bob_frame _ e c] lower_bob bob_frame
  show ?thesis by simp
qed

subsection \<open>One row per record\<close>

text \<open>
  Claim C10, as the code has it: whenever \<open>transform_users_data\<close> or
  \<open>transform_posts_data\<close> returns, the frame has one row per input record, every
  column has that length, and the rows are in input order: row \<open>i\<close> carries the id of
  record \<open>i\<close>, a number as its column holds it. They do not return on every list.
\<close>

theorem transform_one_row_per_record:
  "(transform_users_data up tf now xs = Inr dx \<longrightarrow>
      index_len dx = length xs \<and>
      list_all (\<lambda>c. length (snd c) = length xs) (columns dx) \<and>
      (\<forall>i < length xs.
         frame_cell dx ''user_id'' i =
           Some (fillna_cell (PStr [])
                  (upcast_cell up (column_cells xs ''id'') (cell_of (map_of (xs ! i) ''id'')))))) \<and>
   (transform_posts_data up now ps = Inr dp \<longrightarrow>
      index_len dp = length ps \<and>
      list_all (\<lambda>c. length (snd c) = length ps) (columns dp) \<and>
      (\<forall>i < length ps.
         frame_cell dp ''post_id'' i =
           Some (upcast_cell up (column_cells ps ''id'') (cell_of (map_of (ps ! i) ''id'')))))"
proof (intro conjI impI allI)
  assume u: "transform_users_data up tf now xs = Inr dx"
  show "index_len dx = length xs" unfolding users_frame[OF u] by simp
  show "list_all (\<lambda>c. length (snd c) = length xs) (columns dx)"
    unfolding users_frame[OF u]
    by (simp add: length_passed_column length_to_numeric both_present_def)
  fix i assume "i < length xs"
  then show "frame_cell dx ''user_id'' i =
      Some (fillna_cell (PStr [])
             (upcast_cell up (column_cells xs ''id'') (cell_of (map_of (xs ! i) ''id''))))"
    unfolding users_frame[OF u]
    by (simp add: frame_cell_def length_passed_column nth_passed_column)
next
  assume p: "transform_posts_data up now ps = Inr dp"
  show "index_len dp = length ps" unfolding posts_frame[OF p] by simp
  show "list_all (\<lambda>c. length (snd c) = length ps) (columns dp)"
    unfolding posts_frame[OF p] by (simp add: length_passed_column)
  fix i assume "i < length ps"
  then show "frame_cell dp ''post_id'' i =
      Some (upcast_cell up (column_cells ps ''id'') (cell_of (map_of (ps ! i) ''id'')))"
    unfolding posts_frame[OF p]
    by (simp add: frame_cell_def length_passed_column nth_passed_column)
qed

text \<open>On the empty list both transformations raise \<open>KeyError\<close> instead of returning no rows.\<close>

theorem transform_empty_list_raises:
  "transform_users_data no_upcast to_float_example ts_example [] = Inl (KeyError ''id'') \<and>
   transform_posts_data no_upcast ts_example [] = Inl (KeyError ''id'')"
  by (simp add: transform_users_data_def transform_posts_data_def getitem_def has_column_def bindE_def)

lemma bob_amy_returns:
  "\<exists>dx. transform_users_data no_upcast to_float_example ts_example [user_bob, user_amy] = Inr dx"
  by (simp add: transform_users_data_def user_bob_def user_amy_def bindE_def getitem_def
      getitem_str_def has_column_def raw_column_def column_cells_def passed_column_def
      str_accessor_ok_def str_again_def str_result_ok_def dict_get_def Let_def)

lemma blank_note_returns:
  "\<exists>dp. transform_posts_data no_upcast ts_example [post_blank, post_note] = Inr dp"
  by (simp add: transform_posts_data_def post_blank_def post_note_def bindE_def getitem_def
      getitem_str_def has_column_def raw_column_def column_cells_def passed_column_def
      str_accessor_ok_def str_again_def str_result_ok_def cut_series_def Let_def)

theorem transform_one_row_per_record_witness:
  "\<exists>dx dp.
     transform_users_data no_upcast to_float_example ts_example [user_bob, user_amy] = Inr dx \<and>
     transform_posts_data no_upcast ts_example [post_blank, post_note] = Inr dp \<and>
     index_len dx = 2 \<and> index_len dp = 2 \<and>
     frame_cell dx ''user_id'' 1 = Some (PNum 2) \<and> frame_cell dp ''post_id'' 1 = Some (PNum 2)"
proof -
  from bob_amy_returns obtain dx where
    dx: "transform_users_data no_upcast to_float_example ts_example [user_bob, user_amy] = Inr dx" ..
  from blank_note_returns obtain dp where
    dp: "transform_posts_data no_upcast ts_example [post_blank, post_note] = Inr dp" ..
  note t = transform_one_row_per_record[of no_upcast to_float_example ts_example
      "[user_bob, user_amy]" dx "[post_blank, post_note]" dp]
  from t dx dp have len: "index_len dx = 2" "index_len dp = 2" by simp_all
  from t dx have "frame_cell dx ''user_id'' 1 =
      Some (fillna_cell (PStr [])
             (upcast_cell no_upcast (column_cells [user_bob, user_amy] ''id'')
                (cell_of (map_of ([user_bob, user_amy] ! 1) ''id''))))"
    by simp
  then have u: "frame_cell dx ''user_id'' 1 = Some (PNum 2)"
    by (simp add: user_amy_def fillna_cell_def no_upcast_def)
  from t dp have "frame_cell dp ''post_id'' 1 =
      Some (upcast_cell no_upcast (column_cells [post_blank, post_note] ''id'')
              (cell_of (map_of ([post_blank, post_note] ! 1) ''id'')))"
    by simp
  then have p: "frame_cell dp ''post_id'' 1 = Some (PNum 2)"
    by (simp add: post_note_def no_upcast_def)
  from dx dp len u p show ?thesis by blast
qed

section \<open>Properties of the loader\<close>

subsection \<open>Cleaning\<close>

lemma length_to_records: "length (to_records df) = index_len df"
  by (simp add: to_records_def)

lemma truncate_col_index: "index_len (truncate_col rule df) = index_len df"
  by (auto simp: truncate_col_def set_col_def split: option.splits)

lemma truncate_col_keys: "map fst (columns (truncate_col rule df)) = map fst (columns df)"
  by (auto simp: truncate_col_def set_col_def update_keys map_of_eq_None_iff[symmetric] split: option.splits)

lemma truncate_col_map_of:
  "map_of (columns (truncate_col rule df)) c =
     (if c = fst rule
      then (case map_of (columns df) c of
              None \<Rightarrow> None
            | Some vs \<Rightarrow>
                if is_string_dtype vs then Some (map (str_slice_cell (snd rule)) vs) else Some vs)
      else map_of (columns df) c)"
  by (auto simp: truncate_col_def set_col_def update_conv' comp_def split: option.splits)

lemma fold_truncate_index: "index_len (fold truncate_col rules df) = index_len df"
  by (induction rules arbitrary: df) (simp_all add: truncate_col_index)

lemma fold_truncate_keys: "map fst (columns (fold truncate_col rules df)) = map fst (columns df)"
  by (induction rules arbitrary: df) (simp_all add: truncate_col_keys)

lemma fold_truncate_map_of:
  "distinct (map fst rules) \<Longrightarrow>
   map_of (columns (fold truncate_col rules df)) c =
     (case map_of (columns df) c of
        None \<Rightarrow> None
      | Some vs \<Rightarrow>
          (case map_of rules c of
             None \<Rightarrow> Some vs
           | Some n \<Rightarrow> if is_string_dtype vs then Some (map (str_slice_cell n) vs) else Some vs))"
proof (induction rules arbitrary: df)
  case Nil
  show ?case by (simp split: option.splits)
next
  case (Cons rule rules)
  then have d: "distinct (map fst rules)" and nk: "map_of rules (fst rule) = None"
    by (auto simp: map_of_eq_None_iff)
  show ?case
    using nk by (cases rule) (auto simp: Cons.IH[OF d] truncate_col_map_of split: option.splits)
qed


lemma rules_wf:
  "map_of LENGTH_RULES kind = Some rules \<Longrightarrow>
     distinct (map fst rules) \<and> map_of rules ''created_at'' = None"
  by (auto simp: LENGTH_RULES_def split: if_splits)

lemma created_at_step_map_of:
  "map_of (columns (case map_of (columns df) ''created_at'' of
                      None \<Rightarrow> df
                    | Some vs \<Rightarrow> set_col ''created_at'' (g vs) df)) c =
     (if c = ''created_at'' then map_option g (map_of (columns df) c)
      else map_of (columns df) c)"
  by (auto simp: set_col_def update_conv' split: option.splits)

lemma created_at_step_index:
  "index_len (case map_of (columns df) ''created_at'' of
                None \<Rightarrow> df
              | Some vs \<Rightarrow> set_col ''created_at'' (g vs) df) = index_len df"
  by (auto simp: set_col_def split: option.splits)

lemma created_at_step_keys:
  "map fst (columns (case map_of (columns df) ''created_at'' of
                None \<Rightarrow> df
              | Some vs \<Rightarrow> set_col ''created_at'' (g vs) df)) = map fst (columns df)"
  by (auto simp: set_col_def update_keys map_of_eq_None_iff[symmetric] split: option.splits)

lemma clean_index: "index_len (clean_dataframe_for_db env df kind) = index_len df"
  by (simp add: clean_dataframe_for_db_def Let_def created_at_step_index fold_truncate_index
      split: option.splits)

lemma clean_keys: "map fst (columns (clean_dataframe_for_db env df kind)) = map fst (columns df)"
  by (simp add: clean_dataframe_for_db_def Let_def created_at_step_keys fold_truncate_keys
      split: option.splits)

lemma clean_map_of:
  "map_of (columns (clean_dataframe_for_db env df kind)) c =
     (case map_of (columns df) c of
        None \<Rightarrow> None
      | Some vs \<Rightarrow>
          if c = ''created_at'' then Some (map (to_datetime_cell (parse_timestamp env vs)) vs)
          else (case map_of LENGTH_RULES kind of
                  None \<Rightarrow> Some vs
                | Some rules \<Rightarrow>
                    (case map_of rules c of
                       None \<Rightarrow> Some vs
                     | Some n \<Rightarrow>
                         if is_string_dtype vs then Some (map (str_slice_cell n) vs)
                         else Some vs)))"
proof (cases "map_of LENGTH_RULES kind")
  case None
  then show ?thesis
    by (simp add: clean_dataframe_for_db_def Let_def created_at_step_map_of split: option.splits)
next
  case (Some rules)
  note wf = rules_wf[OF Some]
  show ?thesis
    using wf
    by (simp add: clean_dataframe_for_db_def Let_def Some fold_truncate_map_of
        created_at_step_map_of split: option.splits)
qed

lemma clean_length:
  "map_of (columns df) c = Some vs \<Longrightarrow>
     \<exists>vs'. map_of (columns (clean_dataframe_for_db env df kind)) c = Some vs' \<and> length vs' = length vs"
  by (auto simp: clean_map_of split: option.splits)

text \<open>
  What \<open>clean_dataframe_for_db\<close> does keep and do: the number of rows, the columns and
  the length of every column are kept; in a column with a declared maximum length a text
  no longer than the maximum is left as it is; in such a column of nothing but texts every
  text is cut to the maximum; a \<open>created_at\<close> value that the timestamp parser does not
  read becomes null.
\<close>

lemma clean_dataframe_for_db_rows_and_limits:
  "index_len (clean_dataframe_for_db env df kind) = index_len df \<and>
   length (to_records (clean_dataframe_for_db env df kind)) = length (to_records df) \<and>
   map fst (columns (clean_dataframe_for_db env df kind)) = map fst (columns df) \<and>
   (\<forall>c vs. map_of (columns df) c = Some vs \<longrightarrow>
      (\<exists>vs'. map_of (columns (clean_dataframe_for_db env df kind)) c = Some vs' \<and>
             length vs' = length vs)) \<and>
   (\<forall>rules c n vs i s.
      map_of LENGTH_RULES kind = Some rules \<and> map_of rules c = Some n \<and>
      map_of (columns df) c = Some vs \<and> i < length vs \<and> vs ! i = PStr s \<longrightarrow>
        (length s \<le> n \<longrightarrow> frame_cell (clean_dataframe_for_db env df kind) c i = Some (PStr s)) \<and>
        (is_string_dtype vs \<longrightarrow>
           frame_cell (clean_dataframe_for_db env df kind) c i = Some (PStr (take n s)))) \<and>
   (\<forall>vs i. map_of (columns df) ''created_at'' = Some vs \<and> i < length vs \<and>
           parse_timestamp env vs (vs ! i) = None \<longrightarrow>
      frame_cell (clean_dataframe_for_db env df kind) ''created_at'' i = Some PNull)"
proof (intro conjI allI impI)
  show "index_len (clean_dataframe_for_db env df kind) = index_len df" by (rule clean_index)
  show "length (to_records (clean_dataframe_for_db env df kind)) = length (to_records df)"
    by (simp add: length_to_records clean_index)
  show "map fst (columns (clean_dataframe_for_db env df kind)) = map fst (columns df)"
    by (rule clean_keys)
next
  fix c vs assume "map_of (columns df) c = Some vs"
  then show "\<exists>vs'. map_of (columns (clean_dataframe_for_db env df kind)) c = Some vs' \<and>
             length vs' = length vs" by (rule clean_length)
next
  fix rules c n vs i s
  assume a: "map_of LENGTH_RULES kind = Some rules \<and> map_of rules c = Some n \<and>
      map_of (columns df) c = Some vs \<and> i < length vs \<and> vs ! i = PStr s"
  then have nc: "c \<noteq> ''created_at''" using rules_wf[of kind rules] by auto
  { assume "length s \<le> n"
    then show "frame_cell (clean_dataframe_for_db env df kind) c i = Some (PStr s)"
      using a nc by (simp add: frame_cell_def clean_map_of) }
  { assume "is_string_dtype vs"
    then show "frame_cell (clean_dataframe_for_db env df kind) c i = Some (PStr (take n s))"
      using a nc by (simp add: frame_cell_def clean_map_of) }
next
  fix vs i
  assume "map_of (columns df) ''created_at'' = Some vs \<and> i < length vs \<and>
           parse_timestamp env vs (vs ! i) = None"
  then show "frame_cell (clean_dataframe_for_db env df kind) ''created_at'' i = Some PNull"
    by (simp add: frame_cell_def clean_map_of to_datetime_cell_def)
qed

lemma users_rules:
  "map_of LENGTH_RULES ''users'' =
      Some [(''username'', 100), (''name'', 200), (''email'', 200), (''phone'', 50),
         (''website'', 200), (''city'', 100), (''zipcode'', 20), (''company_name'', 200),
         (''email_domain'', 100)]"
  by (simp add: LENGTH_RULES_def)

text \<open>
  Claim C9 says that every text longer than its declared maximum is cut to it. The code
  cuts a column only when \<open>is_string_dtype\<close> accepts it, and a column that holds a
  missing value beside its texts is not accepted: the \<open>zipcode\<close> of 25 characters,
  with the declared maximum 20, comes back whole.
\<close>

theorem zipcode_beside_missing_value_uncut:
  "clean_dataframe_for_db env_example zip_df_example ''users'' =
     \<lparr>index_len = 2,
      columns = [(''zipcode'', [PStr ''0123456789012345678901234'', PNull])]\<rparr> \<and>
   Option.bind (map_of LENGTH_RULES ''users'') (\<lambda>rules. map_of rules ''zipcode'') = Some 20"
proof -
  have a: "truncate_col (k, n) zip_df_example = zip_df_example" for k n
  proof (cases "k = ''zipcode''")
    case True
    then show ?thesis
      by (simp add: truncate_col_def zip_df_example_def is_string_dtype_def)
  next
    case False
    then show ?thesis
      by (simp add: truncate_col_def zip_df_example_def)
  qed
  have c: "map_of (columns zip_df_example) ''created_at'' = None"
    by (simp add: zip_df_example_def)
  have "clean_dataframe_for_db env_example zip_df_example ''users'' = zip_df_example"
    by (simp add: clean_dataframe_for_db_def users_rules a c)
  then show ?thesis
    by (simp add: users_rules zip_df_example_def)
qed

subsection \<open>Loading\<close>

lemma load_to_database_Replace:
  "load_to_database env d df t Replace =
     (case to_sql_fault env t df of
        Some m \<Rightarrow> Inl (StorageError m, d(t \<mapsto> []))
      | None \<Rightarrow> Inr (d(t \<mapsto> to_records df)))"
  by (simp add: load_to_database_def to_sql_def insert_rows_def split: option.splits)

text \<open>
  Claim C8: loading the same frame into a table twice in succession, with the default
  \<open>if_exists="replace"\<close>, leaves the table as the first load left it: it holds the
  frame's rows, and the verified row count is the frame's row count both times.
\<close>

theorem load_twice_same_count:
  assumes "load_to_database env1 d df t Replace = Inr d1"
    and "load_to_database env2 d1 df t Replace = Inr d2"
  shows "d1 t = Some (to_records df) \<and> d2 = d1 \<and>
         verify_data_load d1 t = Inr \<lparr>table = t, count = index_len df, error_msg = None\<rparr> \<and>
         verify_data_load d2 t = verify_data_load d1 t"
proof -
  from assms(1) have d1: "d1 = d(t \<mapsto> to_records df)"
    by (simp add: load_to_database_Replace split: option.splits)
  from assms(2) have d2: "d2 = d1(t \<mapsto> to_records df)"
    by (simp add: load_to_database_Replace split: option.splits)
  from d1 d2 have "d2 = d1" by simp
  then show ?thesis
    using d1 by (simp add: verify_data_load_def length_to_records)
qed

theorem load_twice_same_count_witness:
  "\<exists>d1 d2.
     load_to_database env_example db_empty posts_df_example ''posts'' Replace = Inr d1 \<and>
     load_to_database env_example d1 posts_df_example ''posts'' Replace = Inr d2 \<and>
     verify_data_load d1 ''posts'' = Inr \<lparr>table = ''posts'', count = 1, error_msg = None\<rparr> \<and>
     verify_data_load d2 ''posts'' = Inr \<lparr>table = ''posts'', count = 1, error_msg = None\<rparr>"
proof -
  have l1: "load_to_database env_example db_empty posts_df_example ''posts'' Replace =
      Inr (db_empty(''posts'' \<mapsto> to_records posts_df_example))"
    by (simp add: load_to_database_Replace env_example_def no_fault_def)
  have l2: "load_to_database env_example (db_empty(''posts'' \<mapsto> to_records posts_df_example))
        posts_df_example ''posts'' Replace =
      Inr (db_empty(''posts'' \<mapsto> to_records posts_df_example))"
    by (simp add: load_to_database_Replace env_example_def no_fault_def)
  from load_twice_same_count[OF l1 l2] l1 l2 show ?thesis
    by (simp add: posts_df_example_def)
qed

lemma load_block_eq:
  "load_block env d date filename kind =
     (case load_processed_data env filename date of
        Inl e \<Rightarrow> Inl (e, d)
      | Inr df \<Rightarrow>
          (case to_sql_fault env kind (clean_dataframe_for_db env df kind) of
             Some m \<Rightarrow> Inl (StorageError m, d(kind \<mapsto> []))
           | None \<Rightarrow>
               Inr (d(kind \<mapsto> to_records (clean_dataframe_for_db env df kind)),
                    \<lparr>table = kind, count = index_len df, error_msg = None\<rparr>)))"
  by (auto simp: load_block_def load_to_database_Replace verify_data_load_def
      length_to_records clean_index split: sum.splits option.splits)

lemma create_tables_ok:
  "create_fault env = None \<Longrightarrow> \<exists>d0. create_tables env d = Inr d0"
  by (simp add: create_tables_def Let_def)

text \<open>
  Claim C6: when the schema can be created and the processed file of one kind is missing,
  \<open>load_all_data\<close> returns; the missing kind is reported with count 0 and the message
  of the error, and the other kind is loaded: its table holds the cleaned rows and its
  result carries their count.
\<close>

theorem load_all_data_missing_file:
  assumes "create_fault env = None"
  shows
    "(load_processed_data env ''users.parquet'' date = Inl (FileNotFoundError m) \<and>
      load_processed_data env ''posts.parquet'' date = Inr pdf \<and>
      to_sql_fault env ''posts'' (clean_dataframe_for_db env pdf ''posts'') = None \<longrightarrow>
        (\<exists>d'. load_all_data env d date =
                 Inr (d', [(''users'', \<lparr>table = ''users'', count = 0, error_msg = Some m\<rparr>),
                           (''posts'', \<lparr>table = ''posts'', count = index_len pdf, error_msg = None\<rparr>)]) \<and>
               d' ''posts'' = Some (to_records (clean_dataframe_for_db env pdf ''posts'')))) \<and>
     (load_processed_data env ''posts.parquet'' date = Inl (FileNotFoundError m) \<and>
      load_processed_data env ''users.parquet'' date = Inr udf \<and>
      to_sql_fault env ''users'' (clean_dataframe_for_db env udf ''users'') = None \<longrightarrow>
        (\<exists>d'. load_all_data env d date =
                 Inr (d', [(''users'', \<lparr>table = ''users'', count = index_len udf, error_msg = None\<rparr>),
                           (''posts'', \<lparr>table = ''posts'', count = 0, error_msg = Some m\<rparr>)]) \<and>
               d' ''users'' = Some (to_records (clean_dataframe_for_db env udf ''users''))))"
proof -
  from create_tables_ok[OF assms] obtain d0 where c: "create_tables env d = Inr d0" ..
  show ?thesis
    by (simp add: load_all_data_def c bindE_def load_block_eq Let_def)
qed

lemma env_no_users_loads:
  "load_processed_data env_no_users ''users.parquet'' None =
     Inl (FileNotFoundError ''File not found: data/processed/2024-01-01/users.parquet'')"
  "load_processed_data env_no_users ''posts.parquet'' None = Inr posts_df_example"
  by (simp_all add: load_processed_data_def env_no_users_def env_example_def file_path_def
      posts_only_files_def Let_def)

theorem load_all_data_missing_file_witness:
  "\<exists>d'. load_all_data env_no_users db_empty None =
      Inr (d', [(''users'', \<lparr>table = ''users'', count = 0,
                    error_msg = Some ''File not found: data/processed/2024-01-01/users.parquet''\<rparr>),
                (''posts'', \<lparr>table = ''posts'', count = 1, error_msg = None\<rparr>)])"
proof -
  have c: "create_fault env_no_users = None"
    by (simp add: env_no_users_def env_example_def)
  have f: "to_sql_fault env_no_users ''posts''
      (clean_dataframe_for_db env_no_users posts_df_example ''posts'') = None"
    by (simp add: env_no_users_def env_example_def no_fault_def)
  from load_all_data_missing_file[OF c, of None
      "''File not found: data/processed/2024-01-01/users.parquet''" posts_df_example db_empty]
    env_no_users_loads f
  show ?thesis by (auto simp: posts_df_example_def)
qed

text \<open>
  What the handlers of \<open>load_all_data\<close> do with a failed write: \<open>load_to_database\<close>
  raises it to its caller, the handler of the block reports the kind with count 0 and the
  message, and \<open>load_all_data\<close> itself raises only when creating the schema fails.
\<close>

lemma write_failure_never_leaves_load_all_data:
  "(to_sql_fault env t df = Some m \<longrightarrow>
      (\<exists>d'. load_to_database env d df t mode = Inl (StorageError m, d')) \<or>
      (\<exists>m'. load_to_database env d df t mode = Inl (ValueError m', d))) \<and>
   (create_fault env = None \<and> load_processed_data env ''users.parquet'' date = Inr udf \<and>
    to_sql_fault env ''users'' (clean_dataframe_for_db env udf ''users'') = Some m \<longrightarrow>
      (\<exists>d' r. load_all_data env d date =
         Inr (d', [(''users'', \<lparr>table = ''users'', count = 0, error_msg = Some m\<rparr>),
                   (''posts'', r)]))) \<and>
   (create_fault env = None \<and> load_processed_data env ''posts.parquet'' date = Inr pdf \<and>
    to_sql_fault env ''posts'' (clean_dataframe_for_db env pdf ''posts'') = Some m \<longrightarrow>
      (\<exists>d' r. load_all_data env d date =
         Inr (d', [(''users'', r),
                   (''posts'', \<lparr>table = ''posts'', count = 0, error_msg = Some m\<rparr>)]))) \<and>
   ((\<exists>e. load_all_data env d date = Inl e) \<longleftrightarrow> (\<exists>m'. create_fault env = Some m'))"
proof (intro conjI impI)
  assume "to_sql_fault env t df = Some m"
  then show "(\<exists>d'. load_to_database env d df t mode = Inl (StorageError m, d')) \<or>
      (\<exists>m'. load_to_database env d df t mode = Inl (ValueError m', d))"
    by (cases mode) (auto simp: load_to_database_def to_sql_def insert_rows_def split: option.splits)
next
  assume a: "create_fault env = None \<and> load_processed_data env ''users.parquet'' date = Inr udf \<and>
    to_sql_fault env ''users'' (clean_dataframe_for_db env udf ''users'') = Some m"
  then obtain d0 where c: "create_tables env d = Inr d0" using create_tables_ok by blast
  show "\<exists>d' r. load_all_data env d date =
         Inr (d', [(''users'', \<lparr>table = ''users'', count = 0, error_msg = Some m\<rparr>),
                   (''posts'', r)])"
    using a by (simp add: load_all_data_def c bindE_def load_block_eq Let_def split_beta
        split: sum.splits)
next
  assume a: "create_fault env = None \<and> load_processed_data env ''posts.parquet'' date = Inr pdf \<and>
    to_sql_fault env ''posts'' (clean_dataframe_for_db env pdf ''posts'') = Some m"
  then obtain d0 where c: "create_tables env d = Inr d0" using create_tables_ok by blast
  show "\<exists>d' r. load_all_data env d date =
         Inr (d', [(''users'', r),
                   (''posts'', \<lparr>table = ''posts'', count = 0, error_msg = Some m\<rparr>)])"
    using a by (simp add: load_all_data_def c bindE_def load_block_eq Let_def split_beta
        split: sum.splits)
next
  show "(\<exists>e. load_all_data env d date = Inl e) \<longleftrightarrow> (\<exists>m'. create_fault env = Some m')"
    by (auto simp: load_all_data_def create_tables_def bindE_def Let_def split_beta
        split: option.splits)
qed

text \<open>
  Claim C3 says that a failed write leaves \<open>load_all_data\<close> as an error. With an
  engine that refuses every insertion into \<open>users\<close>, \<open>load_to_database\<close> raises,
  leaving the table emptied, and \<open>load_all_data\<close> returns normally: it reports
  \<open>users\<close> with count 0 and the message, and loads \<open>posts\<close>.
\<close>

theorem users_write_failure_is_caught:
  "(\<exists>d'. load_to_database env_users_fault db_old
            (clean_dataframe_for_db env_users_fault users_df_example ''users'') ''users'' Replace =
          Inl (StorageError ''database is locked'', d') \<and>
        d' ''users'' = Some []) \<and>
   (\<exists>d'. load_all_data env_users_fault db_old None =
          Inr (d', [(''users'', \<lparr>table = ''users'', count = 0,
                                  error_msg = Some ''database is locked''\<rparr>),
                    (''posts'', \<lparr>table = ''posts'', count = 1, error_msg = None\<rparr>)]) \<and>
        d' ''users'' = Some [])"
  by (simp add: load_to_database_Replace load_all_data_def create_tables_def bindE_def
      load_block_eq load_processed_data_def file_path_def env_users_fault_def env_example_def
      users_fault_def files_example_def db_old_def db_empty_def Let_def posts_df_example_def
      users_df_example_def Option.is_none_def)

section \<open>Properties of the analytics stage\<close>

lemma report_step_eq:
  "report_step env nf rep =
     rep\<lparr>analytics := AList.update (fst nf) (result_entry (snd nf env)) (analytics rep)\<rparr>"
  by (simp add: report_step_def result_entry_def split: sum.splits)

lemma execute_query_eq: "execute_query env q n = run_sql env q"
  by (simp add: execute_query_def split: sum.splits)

lemma generate_report_analytics:
  "analytics (generate_report env) =
     [(''user_statistics'', result_entry (run_sql env user_statistics_sql)),
      (''post_statistics'', result_entry (run_sql env post_statistics_sql)),
      (''user_post_activity'', result_entry (run_sql env user_post_activity_sql))]"
  by (simp add: generate_report_def analytics_functions_def report_step_eq execute_query_eq
      user_statistics_def post_statistics_def user_post_activity_def)

text \<open>
  Claim C7: the report has an entry for each of the three queries, in order. The entry of
  a query that fails holds the error text, no data and record count 0; the entry of a
  query that returns holds its rows, their number and the column names. Each entry depends
  on its own query only, so a failing query changes no other entry and stops nothing.
\<close>

theorem generate_report_isolates_failures:
  "map fst (analytics (generate_report env)) =
     [''user_statistics'', ''post_statistics'', ''user_post_activity''] \<and>
   (\<forall>name q. (name, q) \<in> set [(''user_statistics'', user_statistics_sql),
                               (''post_statistics'', post_statistics_sql),
                               (''user_post_activity'', user_post_activity_sql)] \<longrightarrow>
      (\<forall>e. run_sql env q = Inl e \<longrightarrow>
         map_of (analytics (generate_report env)) name =
           Some \<lparr>error_str = Some (str_of_error e), data = [], record_count = 0,
                 column_names = None\<rparr>) \<and>
      (\<forall>df. run_sql env q = Inr df \<longrightarrow>
         map_of (analytics (generate_report env)) name =
           Some \<lparr>error_str = None, data = to_records df, record_count = index_len df,
                 column_names = Some (map fst (columns df))\<rparr>))"
  by (auto simp: generate_report_analytics result_entry_def)

theorem generate_report_isolates_failures_witness:
  "map_of (analytics (generate_report aenv_example)) ''user_statistics'' =
     Some \<lparr>error_str = Some ''no such table: users'', data = [], record_count = 0,
           column_names = None\<rparr> \<and>
   map_of (analytics (generate_report aenv_example)) ''post_statistics'' =
     Some \<lparr>error_str = None, data = [[(''total_posts'', PNum 3)]], record_count = 1,
           column_names = Some [''total_posts'']\<rparr> \<and>
   map_of (analytics (generate_report aenv_example)) ''user_post_activity'' =
     Some \<lparr>error_str = None, data = [[(''total_posts'', PNum 3)]], record_count = 1,
           column_names = Some [''total_posts'']\<rparr>"
proof -
  note t = generate_report_isolates_failures[of aenv_example]
  have q1: "run_sql aenv_example user_statistics_sql = Inl (QueryError ''no such table: users'')"
    by (simp add: aenv_example_def run_sql_example_def)
  have q2: "run_sql aenv_example post_statistics_sql = Inr stats_frame_example"
    by (simp add: aenv_example_def run_sql_example_def user_statistics_sql_def
        post_statistics_sql_def)
  have q3: "run_sql aenv_example user_post_activity_sql = Inr stats_frame_example"
    by (simp add: aenv_example_def run_sql_example_def user_statistics_sql_def
        user_post_activity_sql_def)
  have r: "to_records stats_frame_example = [[(''total_posts'', PNum 3)]]"
    by (simp add: to_records_def stats_frame_example_def frame_cell_def)
  from t q1 have a: "map_of (analytics (generate_report aenv_example)) ''user_statistics'' =
     Some \<lparr>error_str = Some (str_of_error (QueryError ''no such table: users'')), data = [],
           record_count = 0, column_names = None\<rparr>"
    by simp
  from t q2 have b: "map_of (analytics (generate_report aenv_example)) ''post_statistics'' =
     Some \<lparr>error_str = None, data = to_records stats_frame_example,
           record_count = index_len stats_frame_example,
           column_names = Some (map fst (columns stats_frame_example))\<rparr>"
    by simp
  from t q3 have c: "map_of (analytics (generate_report aenv_example)) ''user_post_activity'' =
     Some \<lparr>error_str = None, data = to_records stats_frame_example,
           record_count = index_len stats_frame_example,
           column_names = Some (map fst (columns stats_frame_example))\<rparr>"
    by simp
  from a b c r show ?thesis by (simp add: stats_frame_example_def)
qed

end
